theory Spec2Isabelle
  imports Main
begin

section \<open>The wrapper script \<open>run-with-policy.js\<close>\<close>

text \<open>
  The script resolves a policy directory, a project directory, a stack and a Pulumi
  subcommand from \<open>process.argv\<close> and \<open>process.env\<close>, checks that both directories exist
  and runs \<open>pulumi <command> ... --policy-pack <dir>\<close> with \<open>spawnSync\<close>.

  Everything the script reads from its surroundings is a field of the record \<open>host\<close>;
  everything it does to them is an \<open>event\<close> of the trace it returns. A call that may
  end the process or raise returns a \<open>step\<close>.
\<close>

subsection \<open>The host: arguments, environment, file system, child process\<close>

text \<open>
  What \<open>fs.statSync(p).isDirectory()\<close> tells apart. A path with no entry makes
  \<open>fs.statSync\<close> raise and \<open>fs.existsSync\<close> return false.
\<close>

datatype entry_kind = Directory | OtherEntry

text \<open>
  \<open>spawnSync\<close> either raises, or returns an object whose \<open>status\<close> is the exit code of
  the child, or \<open>null\<close> when there is none (the child could not be started, as when the
  binary is not on the search path, or was ended by a signal).
\<close>

datatype spawn_outcome = SpawnThrew string | SpawnReturned "int option"

record host =
  argv :: "string list"
  env :: "string \<rightharpoonup> string"
  fs_entry :: "string \<rightharpoonup> entry_kind"
  dirname :: string
  path_resolve :: "string \<Rightarrow> string"
  path_join :: "string \<Rightarrow> string \<Rightarrow> string"
  path_basename :: "string \<Rightarrow> string"
  spawn_sync :: "string \<Rightarrow> string list \<Rightarrow> string \<Rightarrow> spawn_outcome"

text \<open>
  \<open>argv\<close> is \<open>process.argv.slice(2)\<close>, \<open>env\<close> is \<open>process.env\<close>, \<open>dirname\<close> is
  \<open>__dirname\<close>; \<open>path_resolve\<close>, \<open>path_join\<close> and \<open>path_basename\<close> are the functions
  of Node's \<open>path\<close> module (\<open>path_resolve\<close> for the working directory of this run);
  \<open>spawn_sync command args cwd\<close> is what \<open>spawnSync\<close> does for that call.
\<close>

datatype event =
    ConsoleLog string
  | ExistsSync string
  | StatSync string
  | SpawnSync string "string list" string

text \<open>
  \<open>Returns x\<close>: the call returned \<open>x\<close>. \<open>Exits c\<close>: it called \<open>process.exit(c)\<close>
  (\<open>None\<close> is \<open>null\<close>). \<open>Throws m\<close>: it raised an error whose message is \<open>m\<close>.
\<close>

datatype 'a step = Returns 'a | Exits "int option" | Throws string

subsection \<open>Console output\<close>

definition colors_red :: string where "colors_red = CHR 0x1B # ''[31m''"
definition colors_green :: string where "colors_green = CHR 0x1B # ''[32m''"
definition colors_yellow :: string where "colors_yellow = CHR 0x1B # ''[33m''"
definition colors_blue :: string where "colors_blue = CHR 0x1B # ''[34m''"
definition colors_magenta :: string where "colors_magenta = CHR 0x1B # ''[35m''"
definition colors_cyan :: string where "colors_cyan = CHR 0x1B # ''[36m''"
definition colors_reset :: string where "colors_reset = CHR 0x1B # ''[0m''"

definition log :: "string \<Rightarrow> string \<Rightarrow> event" where
  "log message color = ConsoleLog (color @ message @ colors_reset)"

text \<open>The two marks of the status lines, U+2705 and U+274C, as their UTF-8 bytes.\<close>

definition check_mark :: string where
  "check_mark = [CHR 0xE2, CHR 0x9C, CHR 0x85]"

definition cross_mark :: string where
  "cross_mark = [CHR 0xE2, CHR 0x9D, CHR 0x8C]"

text \<open>\<open>args.join(' ')\<close>.\<close>

fun join_space :: "string list \<Rightarrow> string" where
  "join_space [] = []"
| "join_space [a] = a"
| "join_space (a # b # bs) = a @ '' '' @ join_space (b # bs)"

definition usage_lines :: "string list" where
  "usage_lines =
    [''Pulumi Policy Check Wrapper'',
     [],
     ''Usage:'',
     ''  node run-with-policy.js [options] [command] [args]'',
     [],
     ''Options:'',
     ''  --policy-dir <dir>   Path to the policy pack directory'',
     ''  --project-dir <dir>  Path to the Pulumi project directory'',
     ''  --stack <stack>      Pulumi stack name'',
     ''  --help               Show this help text'',
     [],
     ''Features:'',
     ''  - Automatically builds the policy pack using pnpm workspace'',
     ''  - Supports configuration via environment variables'',
     ''  - Works with any Pulumi command'',
     [],
     ''Environment Variables:'',
     ''  POLICY_DIR           Path to the policy pack directory'',
     ''  PULUMI_PROJECT_DIR   Path to the Pulumi project directory'',
     ''  PULUMI_STACK         Pulumi stack name'',
     [],
     ''Priority order: Command-line arguments > Environment variables > Default values'',
     [],
     ''Commands:'',
     ''  preview              Run pulumi preview with policy enforcement (default)'',
     ''  up                   Run pulumi up with policy enforcement'',
     ''  refresh              Run pulumi refresh with policy enforcement'',
     ''  destroy              Run pulumi destroy with policy enforcement'',
     [],
     ''Examples:'',
     ''  node run-with-policy.js --policy-dir ./my-policies --project-dir ./my-project preview'',
     ''  node run-with-policy.js --project-dir ./infrastructure --stack dev up'',
     ''  POLICY_DIR=./policies PULUMI_PROJECT_DIR=./project PULUMI_STACK=dev node run-with-policy.js preview'']"

text \<open>The template literal of \<open>showHelp\<close>: a newline before each line and one at the end.\<close>

definition usage_text :: string where
  "usage_text = concat (map (\<lambda>l. CHR 0x0A # l) usage_lines) @ [CHR 0x0A]"

text \<open>\<open>showHelp\<close> prints the usage text and calls \<open>process.exit(0)\<close>.\<close>

definition showHelp :: "event list \<times> 'a step" where
  "showHelp = ([ConsoleLog usage_text], Exits (Some 0))"

subsection \<open>\<open>parseArgs\<close>\<close>

text \<open>The \<open>let\<close> variables of \<open>parseArgs\<close>.\<close>

record locals =
  policyDir :: string
  projectDir :: string
  stack :: string
  command :: string
  remainingArgs :: "string list"

text \<open>
  The object \<open>parseArgs\<close> returns, under the names the script binds its fields to
  (\<open>policyDir: POLICY_PACK_DIR\<close>, \<open>projectDir: PULUMI_PROJECT_DIR\<close>,
  \<open>command: initialCommand\<close>, \<open>remainingArgs: initialArgs\<close>). The variable \<open>stack\<close>
  is not among its fields.
\<close>

record config =
  POLICY_PACK_DIR :: string
  PULUMI_PROJECT_DIR :: string
  initialCommand :: string
  initialArgs :: "string list"

text \<open>\<open>process.env.K || ''\<close>: an unset variable and an empty one both give the empty string.\<close>

definition env_or_empty :: "host \<Rightarrow> string \<Rightarrow> string" where
  "env_or_empty h k = (case env h k of None \<Rightarrow> [] | Some v \<Rightarrow> v)"

definition initial_locals :: "host \<Rightarrow> locals" where
  "initial_locals h =
     \<lparr>policyDir = env_or_empty h ''POLICY_DIR'',
      projectDir = env_or_empty h ''PULUMI_PROJECT_DIR'',
      stack = env_or_empty h ''PULUMI_STACK'',
      command = ''preview'',
      remainingArgs = []\<rparr>"

text \<open>
  The \<open>for\<close> loop of \<open>parseArgs\<close>, from index \<open>i\<close>. \<open>args.slice(i + 1)\<close> is
  \<open>drop (i + 1) args\<close>; \<open>break\<close> returns the variables as they are.
\<close>

function scan :: "string list \<Rightarrow> nat \<Rightarrow> locals \<Rightarrow> locals" where
  "scan args i v =
     (if i < length args then
        (if args ! i = ''--policy-dir'' \<and> i + 1 < length args then
           scan args (i + 1 + 1) (v\<lparr>policyDir := args ! (i + 1)\<rparr>)
         else if args ! i = ''--project-dir'' \<and> i + 1 < length args then
           scan args (i + 1 + 1) (v\<lparr>projectDir := args ! (i + 1)\<rparr>)
         else if args ! i = ''--stack'' \<and> i + 1 < length args then
           scan args (i + 1 + 1) (v\<lparr>stack := args ! (i + 1)\<rparr>)
         else if args ! i \<in> set [''preview'', ''up'', ''refresh'', ''destroy''] then
           v\<lparr>command := args ! i, remainingArgs := drop (i + 1) args\<rparr>
         else
           scan args (i + 1) (v\<lparr>remainingArgs := remainingArgs v @ [args ! i]\<rparr>))
      else v)"
  by pat_completeness auto
termination
  by (relation "measure (\<lambda>(args, i, v). length args - i)") auto

declare scan.simps [simp del]

text \<open>
  The indices at which that loop reads \<open>args\<close>, in order: \<open>args[i]\<close> in every round it
  runs, and \<open>args[i + 1]\<close> in the rounds that take the value of a flag. (\<open>slice\<close> copies
  the tokens that are there and reads no index of its own.)
\<close>

function scan_reads :: "string list \<Rightarrow> nat \<Rightarrow> nat list" where
  "scan_reads args i =
     (if i < length args then
        (if args ! i = ''--policy-dir'' \<and> i + 1 < length args then
           [i, i + 1] @ scan_reads args (i + 1 + 1)
         else if args ! i = ''--project-dir'' \<and> i + 1 < length args then
           [i, i + 1] @ scan_reads args (i + 1 + 1)
         else if args ! i = ''--stack'' \<and> i + 1 < length args then
           [i, i + 1] @ scan_reads args (i + 1 + 1)
         else if args ! i \<in> set [''preview'', ''up'', ''refresh'', ''destroy''] then
           [i]
         else
           [i] @ scan_reads args (i + 1))
      else [])"
  by pat_completeness auto
termination
  by (relation "measure (\<lambda>(args, i). length args - i)") auto

declare scan_reads.simps [simp del]

definition existsSync :: "host \<Rightarrow> string \<Rightarrow> bool" where
  "existsSync h p = (fs_entry h p \<noteq> None)"

text \<open>
  The rest of \<open>parseArgs\<close> after the loop: the defaults for an empty \<open>policyDir\<close> and
  an empty \<open>projectDir\<close>, and the object returned. \<open>!policyDir\<close> holds of the empty
  string, so a directory given as the empty string counts as not given.
\<close>

definition apply_defaults :: "host \<Rightarrow> locals \<Rightarrow> event list \<times> config" where
  "apply_defaults h v =
     (let localPolicyDir = ''./pulumiPolicy'';
          checks = (if policyDir v = [] then [ExistsSync localPolicyDir] else []);
          policy = (if policyDir v = [] then
                      (if existsSync h localPolicyDir then localPolicyDir
                       else path_join h (dirname h) ''pulumiPolicy'')
                    else policyDir v);
          project = (if projectDir v = [] then path_join h (dirname h) ''pulumiTemplate''
                     else projectDir v)
      in (checks,
          \<lparr>POLICY_PACK_DIR = path_resolve h policy,
           PULUMI_PROJECT_DIR = path_resolve h project,
           initialCommand = command v,
           initialArgs = remainingArgs v\<rparr>))"

definition parseArgs :: "host \<Rightarrow> event list \<times> config step" where
  "parseArgs h =
     (let args = argv h in
      if ''--help'' \<in> set args \<or> ''-h'' \<in> set args then showHelp
      else
        let v = scan args 0 (initial_locals h);
            (checks, c) = apply_defaults h v
        in (checks, Returns c))"

text \<open>The configuration a run resolves, when \<open>parseArgs\<close> returns one.\<close>

definition config_of :: "host \<Rightarrow> config option" where
  "config_of h = (case snd (parseArgs h) of Returns c \<Rightarrow> Some c | Exits e \<Rightarrow> None | Throws m \<Rightarrow> None)"

subsection \<open>\<open>runCommand\<close>, \<open>directoryExists\<close> and \<open>main\<close>\<close>

definition runCommand :: "host \<Rightarrow> string \<Rightarrow> string list \<Rightarrow> string \<Rightarrow> event list \<times> int option step" where
  "runCommand h cmd args cwd =
     ([log (''Running command: '' @ cmd @ '' '' @ join_space args) colors_blue,
       SpawnSync cmd args cwd],
      case spawn_sync h cmd args cwd of
        SpawnThrew m \<Rightarrow> Throws m
      | SpawnReturned status \<Rightarrow> Returns status)"

text \<open>\<open>fs.statSync(dir).isDirectory()\<close>, and \<open>false\<close> when \<open>fs.statSync\<close> raises.\<close>

definition directoryExists :: "host \<Rightarrow> string \<Rightarrow> bool" where
  "directoryExists h dir = (case fs_entry h dir of None \<Rightarrow> False | Some k \<Rightarrow> k = Directory)"

text \<open>
  The value of \<open>pulumiArgs\<close> when \<open>pulumi\<close> is run: \<open>initialArgs\<close>, with
  \<open>--stack <PULUMI_STACK>\<close> put in front by \<open>unshift\<close> when \<open>PULUMI_STACK\<close> is not empty
  and \<open>--stack\<close> is not among them, and \<open>--policy-pack <POLICY_PACK_DIR>\<close> pushed at the end.
\<close>

definition stack_added :: "string \<Rightarrow> string list \<Rightarrow> bool" where
  "stack_added stk args = (stk \<noteq> [] \<and> ''--stack'' \<notin> set args)"

definition pulumiArgs :: "string \<Rightarrow> string list \<Rightarrow> string \<Rightarrow> string list" where
  "pulumiArgs stk args dir =
     (if stack_added stk args then [''--stack'', stk] @ args else args) @ [''--policy-pack'', dir]"

text \<open>The lines \<open>main\<close> prints before it checks the directories.\<close>

definition source_of :: "host \<Rightarrow> string \<Rightarrow> string" where
  "source_of h k =
     (if env_or_empty h k \<noteq> [] then ''Environment variable'' else ''Default or command-line'')"

definition banner :: "host \<Rightarrow> config \<Rightarrow> string \<Rightarrow> string \<Rightarrow> event list" where
  "banner h c stk name =
     [log ''=== Pulumi Policy Check Wrapper ==='' colors_blue,
      log (''Policy Pack: '' @ name) colors_blue,
      log (''Policy Directory: '' @ POLICY_PACK_DIR c) colors_blue,
      log (''Project Directory: '' @ PULUMI_PROJECT_DIR c) colors_blue]
     @ (if stk \<noteq> [] then [log (''Stack: '' @ stk) colors_blue] else [])
     @ [log (CHR 0x0A # ''Configuration sources:'') colors_cyan,
        log (''Policy Directory: '' @ source_of h ''POLICY_DIR'') colors_cyan,
        log (''Project Directory: '' @ source_of h ''PULUMI_PROJECT_DIR'') colors_cyan,
        log (''Stack: '' @ source_of h ''PULUMI_STACK'') colors_cyan,
        log (CHR 0x0A # ''Absolute paths:'') colors_cyan,
        log (''Policy Directory: '' @ path_resolve h (POLICY_PACK_DIR c)) colors_cyan,
        log (''Project Directory: '' @ path_resolve h (PULUMI_PROJECT_DIR c)) colors_cyan]"

text \<open>
  \<open>main\<close>, given the module's constants: the fields of \<open>parseArgs\<close>' result,
  \<open>PULUMI_STACK\<close> and \<open>POLICY_PACK_NAME\<close>. \<open>pulumiResult === 0\<close> is \<open>status = Some 0\<close>.
  When the child's status is not \<open>0\<close> the script calls \<open>process.exit(pulumiResult)\<close>
  with that status, \<open>null\<close> included.
\<close>

definition main :: "host \<Rightarrow> config \<Rightarrow> string \<Rightarrow> string \<Rightarrow> event list \<times> unit step" where
  "main h c stk name =
     (let pol = POLICY_PACK_DIR c; proj = PULUMI_PROJECT_DIR c in
      if \<not> directoryExists h pol then
        (banner h c stk name
           @ [StatSync pol, log (''Error: Policy pack directory not found: '' @ pol) colors_red],
         Exits (Some 1))
      else if \<not> directoryExists h proj then
        (banner h c stk name
           @ [StatSync pol, StatSync proj,
              log (''Error: Pulumi project directory not found: '' @ proj) colors_red],
         Exits (Some 1))
      else
        let pulumiCommand = initialCommand c;
            before = banner h c stk name
              @ [StatSync pol, StatSync proj]
              @ (if stack_added stk (initialArgs c)
                 then [log (''Adding stack parameter: '' @ stk) colors_cyan] else [])
              @ [log (''Running Pulumi '' @ pulumiCommand @ '' with policy checks...'') colors_yellow];
            (ran, r) = runCommand h ''pulumi'' (pulumiCommand # pulumiArgs stk (initialArgs c) pol) proj
        in case r of
             Throws m \<Rightarrow> (before @ ran, Throws m)
           | Exits e \<Rightarrow> (before @ ran, Exits e)
           | Returns pulumiResult \<Rightarrow>
               if pulumiResult = Some 0 then
                 (before @ ran
                    @ [log (check_mark @ '' '' @ pulumiCommand
                            @ '' completed successfully with no policy violations'') colors_green],
                  Returns ())
               else
                 (before @ ran
                    @ [log (cross_mark @ '' '' @ pulumiCommand
                            @ '' failed or policy violations detected'') colors_red],
                  Exits pulumiResult))"

subsection \<open>The whole script\<close>

text \<open>
  How a run ends: \<open>process.exit\<close> was called with an argument, or the script ran to its
  end, or an error reached the top of the module with no handler. Node's
  \<open>process.exit(code)\<close> ends the process with \<open>code\<close>, and with \<open>0\<close> when \<open>code\<close> is
  \<open>null\<close> and \<open>process.exitCode\<close> was never set; a script that runs to its end exits
  with \<open>0\<close>; an error nobody caught ends the process with \<open>1\<close>.
\<close>

datatype outcome = ProcessExit "int option" | Completed | Uncaught string

fun exit_status :: "outcome \<Rightarrow> int" where
  "exit_status (ProcessExit (Some n)) = n"
| "exit_status (ProcessExit None) = 0"
| "exit_status Completed = 0"
| "exit_status (Uncaught m) = 1"

record run =
  trace :: "event list"
  outcome :: outcome

text \<open>
  The module from top to bottom: \<open>parseArgs()\<close>, then \<open>PULUMI_STACK\<close> and
  \<open>POLICY_PACK_NAME\<close>, then \<open>main().catch(...)\<close>, whose handler prints the message of
  what \<open>main\<close> raised and calls \<open>process.exit(1)\<close>. The call of \<open>parseArgs\<close> is outside
  \<open>main\<close>; in this model it does not raise.
\<close>

definition script :: "host \<Rightarrow> run" where
  "script h =
     (case parseArgs h of
        (evs, Exits e) \<Rightarrow> \<lparr>trace = evs, outcome = ProcessExit e\<rparr>
      | (evs, Throws m) \<Rightarrow> \<lparr>trace = evs, outcome = Uncaught m\<rparr>
      | (evs, Returns c) \<Rightarrow>
          (let PULUMI_STACK = env_or_empty h ''PULUMI_STACK'';
               POLICY_PACK_NAME = path_basename h (POLICY_PACK_DIR c)
           in case main h c PULUMI_STACK POLICY_PACK_NAME of
                (evs', Returns u) \<Rightarrow> \<lparr>trace = evs @ evs', outcome = Completed\<rparr>
              | (evs', Exits e) \<Rightarrow> \<lparr>trace = evs @ evs', outcome = ProcessExit e\<rparr>
              | (evs', Throws m) \<Rightarrow>
                  \<lparr>trace = evs @ evs' @ [log (''Unhandled error: '' @ m) colors_red],
                   outcome = ProcessExit (Some 1)\<rparr>))"

text \<open>The child processes a trace started: command, arguments, working directory.\<close>

fun spawned :: "event list \<Rightarrow> (string \<times> string list \<times> string) list" where
  "spawned [] = []"
| "spawned (SpawnSync cmd args cwd # es) = (cmd, args, cwd) # spawned es"
| "spawned (e # es) = spawned es"

text \<open>The file-system checks of a trace.\<close>

fun fs_checks :: "event list \<Rightarrow> event list" where
  "fs_checks [] = []"
| "fs_checks (ExistsSync p # es) = ExistsSync p # fs_checks es"
| "fs_checks (StatSync p # es) = StatSync p # fs_checks es"
| "fs_checks (e # es) = fs_checks es"

subsection \<open>The loop on the tokens still to be scanned\<close>

text \<open>
  \<open>scan args i\<close> only looks at \<open>drop i args\<close>. \<open>scan_list\<close> is the same loop written on
  that list: the token at \<open>i\<close> is its head, \<open>i + 1 < args.length\<close> says that its tail is
  not empty. It is used in the proofs only (\<open>scan_scan_list\<close> relates the two).
\<close>

definition wrapper_flags :: "string list" where
  "wrapper_flags = [''--policy-dir'', ''--project-dir'', ''--stack'']"

definition commands :: "string list" where
  "commands = [''preview'', ''up'', ''refresh'', ''destroy'']"

fun scan_list :: "string list \<Rightarrow> locals \<Rightarrow> locals" where
  "scan_list [] v = v"
| "scan_list [a] v =
     (if a \<in> set commands
      then v\<lparr>command := a, remainingArgs := []\<rparr>
      else v\<lparr>remainingArgs := remainingArgs v @ [a]\<rparr>)"
| "scan_list (a # b # rest) v =
     (if a = ''--policy-dir'' then scan_list rest (v\<lparr>policyDir := b\<rparr>)
      else if a = ''--project-dir'' then scan_list rest (v\<lparr>projectDir := b\<rparr>)
      else if a = ''--stack'' then scan_list rest (v\<lparr>stack := b\<rparr>)
      else if a \<in> set commands
      then v\<lparr>command := a, remainingArgs := b # rest\<rparr>
      else scan_list (b # rest) (v\<lparr>remainingArgs := remainingArgs v @ [a]\<rparr>))"

text \<open>
  Where a token stands. \<open>reaches_end pre\<close>: the loop, run on \<open>pre @ rest\<close>, gets to the
  first token of \<open>rest\<close> and reads it as a flag, a command or a plain token; that is,
  \<open>pre\<close> is made of plain tokens and of flags each followed by its value, with no
  command literal where a flag may stand. \<open>dangling xs\<close>: the loop gets to the last token
  of \<open>xs\<close>, which is a flag with no value yet, so that a token added after \<open>xs\<close> is
  taken as that value.
\<close>

fun reaches_end :: "string list \<Rightarrow> bool" where
  "reaches_end [] = True"
| "reaches_end [a] = (a \<notin> set wrapper_flags \<and> a \<notin> set commands)"
| "reaches_end (a # b # rest) =
     (if a \<in> set wrapper_flags then reaches_end rest
      else a \<notin> set commands \<and> reaches_end (b # rest))"

fun dangling :: "string list \<Rightarrow> bool" where
  "dangling [] = False"
| "dangling [a] = (a \<in> set wrapper_flags)"
| "dangling (a # b # rest) =
     (if a \<in> set wrapper_flags then dangling rest
      else if a \<in> set commands then False
      else dangling (b # rest))"

subsection \<open>A host to run the script on\<close>

text \<open>
  The hosts of the examples: the script is installed in \<open>/opt/wrapper\<close> and run from
  \<open>/work\<close>. \<open>resolve_from cwd\<close> is \<open>path.resolve\<close> on the paths used here (an absolute
  path, the empty string, a path under \<open>./\<close>, a plain relative path), \<open>posix_basename\<close>
  is \<open>path.basename\<close> on a path with no slash at its end, and the child returns the same
  outcome whatever it is called with.
\<close>

definition resolve_from :: "string \<Rightarrow> string \<Rightarrow> string" where
  "resolve_from cwd p =
     (if p = [] then cwd
      else if hd p = CHR ''/'' then p
      else if take 2 p = ''./'' then cwd @ ''/'' @ drop 2 p
      else cwd @ ''/'' @ p)"

definition posix_basename :: "string \<Rightarrow> string" where
  "posix_basename p = rev (takeWhile (\<lambda>c. c \<noteq> CHR ''/'') (rev p))"

definition example_host ::
  "string list \<Rightarrow> (string \<rightharpoonup> string) \<Rightarrow> (string \<rightharpoonup> entry_kind) \<Rightarrow> spawn_outcome \<Rightarrow> host" where
  "example_host a e f r =
     \<lparr>argv = a, env = e, fs_entry = f, dirname = ''/opt/wrapper'',
      path_resolve = resolve_from ''/work'',
      path_join = (\<lambda>x y. x @ ''/'' @ y),
      path_basename = posix_basename,
      spawn_sync = (\<lambda>cmd args cwd. r)\<rparr>"

text \<open>Both default directories exist, and so does \<open>./pulumiPolicy\<close> in the working directory.\<close>

definition example_fs :: "string \<rightharpoonup> entry_kind" where
  "example_fs =
     [''./pulumiPolicy'' \<mapsto> Directory,
      ''/work/pulumiPolicy'' \<mapsto> Directory,
      ''/opt/wrapper/pulumiPolicy'' \<mapsto> Directory,
      ''/opt/wrapper/pulumiTemplate'' \<mapsto> Directory]"

section \<open>Properties\<close>

subsection \<open>The loop\<close>

lemma scan_scan_list: "i \<le> length args \<Longrightarrow> scan args i v = scan_list (drop i args) v"
proof (induction args i v rule: scan.induct)
  case (1 args i v)
  show ?case
  proof (cases "i < length args")
    case False
    with "1.prems" show ?thesis by (simp add: scan.simps)
  next
    case True
    define a where "a = args ! i"
    have ha: "args ! i = a" by (simp add: a_def)
    show ?thesis
    proof (cases "i + 1 < length args")
      case False
      have d: "drop i args = [a]"
        using True False Cons_nth_drop_Suc [of i args] by (simp add: a_def)
      have ih: "a \<notin> set commands \<Longrightarrow>
          scan args (i + 1) (v\<lparr>remainingArgs := remainingArgs v @ [a]\<rparr>) = v\<lparr>remainingArgs := remainingArgs v @ [a]\<rparr>"
        using True False by (simp add: scan.simps)
      have dd: "drop (i + 1) args = []" using False by simp
      show ?thesis
        unfolding d
        apply (subst scan.simps)
        using True False ha ih dd by (simp add: commands_def)
    next
      case T2: True
      define b where "b = args ! (i + 1)"
      define rest where "rest = drop (i + 1 + 1) args"
      have hb: "args ! (i + 1) = b" by (simp add: b_def)
      have d1: "drop (i + 1) args = b # rest"
        using T2 Cons_nth_drop_Suc [of "i + 1" args] by (simp add: b_def rest_def)
      have d: "drop i args = a # b # rest"
        using True Cons_nth_drop_Suc [of i args] d1 by (simp add: a_def)
      have le2: "i + 1 + 1 \<le> length args" and le1: "i + 1 \<le> length args" using T2 by simp_all
      have ih1: "a = ''--policy-dir'' \<Longrightarrow>
          scan args (i + 1 + 1) (v\<lparr>policyDir := b\<rparr>) = scan_list rest (v\<lparr>policyDir := b\<rparr>)"
        using "1.IH"(1) True T2 le2 ha hb by (simp add: rest_def)
      have ih2: "a \<noteq> ''--policy-dir'' \<Longrightarrow> a = ''--project-dir'' \<Longrightarrow>
          scan args (i + 1 + 1) (v\<lparr>projectDir := b\<rparr>) = scan_list rest (v\<lparr>projectDir := b\<rparr>)"
        using "1.IH"(2) True T2 le2 ha hb by (simp add: rest_def)
      have ih3: "a \<noteq> ''--policy-dir'' \<Longrightarrow> a \<noteq> ''--project-dir'' \<Longrightarrow> a = ''--stack'' \<Longrightarrow>
          scan args (i + 1 + 1) (v\<lparr>stack := b\<rparr>) = scan_list rest (v\<lparr>stack := b\<rparr>)"
        using "1.IH"(3) True T2 le2 ha hb by (simp add: rest_def)
      have ih4: "a \<noteq> ''--policy-dir'' \<Longrightarrow> a \<noteq> ''--project-dir'' \<Longrightarrow> a \<noteq> ''--stack'' \<Longrightarrow>
          a \<notin> set commands \<Longrightarrow>
          scan args (i + 1) (v\<lparr>remainingArgs := remainingArgs v @ [a]\<rparr>)
            = scan_list (b # rest) (v\<lparr>remainingArgs := remainingArgs v @ [a]\<rparr>)"
        using "1.IH"(4) True T2 le1 ha hb d1 by (simp add: commands_def)
      show ?thesis
        unfolding d
        apply (subst scan.simps)
        using True T2 ha hb d1 ih1 ih2 ih3 ih4 by (simp add: commands_def)
    qed
  qed
qed

lemma scan_reads_in_range: "k \<in> set (scan_reads args i) \<Longrightarrow> k < length args"
proof (induction args i rule: scan_reads.induct)
  case (1 args i)
  show ?case
  proof (cases "i < length args")
    case False
    with "1.prems" show ?thesis by (simp add: scan_reads.simps)
  next
    case True
    have two: "i + 1 < length args \<Longrightarrow> k \<in> set ([i, i + 1] @ scan_reads args (i + 1 + 1)) \<Longrightarrow>
        (k \<in> set (scan_reads args (i + 1 + 1)) \<Longrightarrow> k < length args) \<Longrightarrow> k < length args"
      using True by auto
    have one: "k \<in> set ([i] @ scan_reads args (i + 1)) \<Longrightarrow>
        (k \<in> set (scan_reads args (i + 1)) \<Longrightarrow> k < length args) \<Longrightarrow> k < length args"
      using True by auto
    consider (policy) "args ! i = ''--policy-dir'' \<and> i + 1 < length args"
      | (project) "\<not> (args ! i = ''--policy-dir'' \<and> i + 1 < length args)"
          "args ! i = ''--project-dir'' \<and> i + 1 < length args"
      | (stack) "\<not> (args ! i = ''--policy-dir'' \<and> i + 1 < length args)"
          "\<not> (args ! i = ''--project-dir'' \<and> i + 1 < length args)"
          "args ! i = ''--stack'' \<and> i + 1 < length args"
      | (command) "\<not> (args ! i = ''--policy-dir'' \<and> i + 1 < length args)"
          "\<not> (args ! i = ''--project-dir'' \<and> i + 1 < length args)"
          "\<not> (args ! i = ''--stack'' \<and> i + 1 < length args)"
          "args ! i \<in> set [''preview'', ''up'', ''refresh'', ''destroy'']"
      | (plain) "\<not> (args ! i = ''--policy-dir'' \<and> i + 1 < length args)"
          "\<not> (args ! i = ''--project-dir'' \<and> i + 1 < length args)"
          "\<not> (args ! i = ''--stack'' \<and> i + 1 < length args)"
          "args ! i \<notin> set [''preview'', ''up'', ''refresh'', ''destroy'']"
      by blast
    then show ?thesis
    proof cases
      case policy
      then have "scan_reads args i = [i, i + 1] @ scan_reads args (i + 1 + 1)"
        using True by (subst scan_reads.simps) auto
      with "1.prems" two policy "1.IH"(1) [OF True policy] show ?thesis by metis
    next
      case project
      then have "scan_reads args i = [i, i + 1] @ scan_reads args (i + 1 + 1)"
        using True by (subst scan_reads.simps) auto
      with "1.prems" two project "1.IH"(2) [OF True project] show ?thesis by metis
    next
      case stack
      then have "scan_reads args i = [i, i + 1] @ scan_reads args (i + 1 + 1)"
        using True by (subst scan_reads.simps) auto
      with "1.prems" two stack "1.IH"(3) [OF True stack] show ?thesis by metis
    next
      case command
      then have "scan_reads args i = [i]"
        using True by (subst scan_reads.simps) auto
      with "1.prems" True show ?thesis by simp
    next
      case plain
      then have "scan_reads args i = [i] @ scan_reads args (i + 1)"
        using True by (subst scan_reads.simps) auto
      with "1.prems" one "1.IH"(4) [OF True plain] show ?thesis by metis
    qed
  qed
qed

lemma flag_cases:
  "a \<in> set wrapper_flags \<longleftrightarrow> a = ''--policy-dir'' \<or> a = ''--project-dir'' \<or> a = ''--stack''"
  by (simp add: wrapper_flags_def)

lemma scan_list_policy_flag:
  "scan_list (''--policy-dir'' # b # rest) v = scan_list rest (v\<lparr>policyDir := b\<rparr>)"
  by simp

lemma scan_list_flag:
  assumes "a \<in> set wrapper_flags"
  shows "\<exists>g. (\<forall>v. scan_list (a # b # rest) v = scan_list rest (g v))
            \<and> (\<forall>v. remainingArgs (g v) = remainingArgs v)"
proof -
  from assms consider "a = ''--policy-dir''" | "a = ''--project-dir''" | "a = ''--stack''"
    unfolding flag_cases by blast
  then show ?thesis
  proof cases
    case 1
    then have "\<forall>v. scan_list (a # b # rest) v = scan_list rest (v\<lparr>policyDir := b\<rparr>)" by simp
    moreover have "\<forall>v::locals. remainingArgs (v\<lparr>policyDir := b\<rparr>) = remainingArgs v" by simp
    ultimately show ?thesis by blast
  next
    case 2
    then have "\<forall>v. scan_list (a # b # rest) v = scan_list rest (v\<lparr>projectDir := b\<rparr>)" by simp
    moreover have "\<forall>v::locals. remainingArgs (v\<lparr>projectDir := b\<rparr>) = remainingArgs v" by simp
    ultimately show ?thesis by blast
  next
    case 3
    then have "\<forall>v. scan_list (a # b # rest) v = scan_list rest (v\<lparr>stack := b\<rparr>)" by simp
    moreover have "\<forall>v::locals. remainingArgs (v\<lparr>stack := b\<rparr>) = remainingArgs v" by simp
    ultimately show ?thesis by blast
  qed
qed

lemma scan_list_plain:
  "a \<notin> set wrapper_flags \<Longrightarrow> a \<notin> set commands \<Longrightarrow>
   scan_list (a # b # rest) v = scan_list (b # rest) (v\<lparr>remainingArgs := remainingArgs v @ [a]\<rparr>)"
  by (simp add: flag_cases)

lemma scan_list_single:
  "a \<notin> set commands \<Longrightarrow> scan_list [a] v = v\<lparr>remainingArgs := remainingArgs v @ [a]\<rparr>"
  by simp

lemma scan_list_command:
  "a \<notin> set wrapper_flags \<Longrightarrow> a \<in> set commands \<Longrightarrow>
   scan_list (a # rest) v = v\<lparr>command := a, remainingArgs := rest\<rparr>"
  by (cases rest) (simp_all add: flag_cases)

lemma scan_list_policyDir:
  "''--policy-dir'' \<notin> set ts \<Longrightarrow> policyDir (scan_list ts v) = policyDir v"
  by (induction ts v rule: scan_list.induct) auto

declare scan_list.simps(2,3) [simp del]

lemma scan_list_prefix:
  "reaches_end pre \<Longrightarrow> \<exists>v'. scan_list (pre @ a # b # rest) v = scan_list (a # b # rest) v'"
proof (induction pre arbitrary: v rule: reaches_end.induct)
  case 1
  show ?case by auto
next
  case (2 x)
  then have "x \<notin> set wrapper_flags" "x \<notin> set commands" by simp_all
  then have "scan_list ([x] @ a # b # rest) v
      = scan_list (a # b # rest) (v\<lparr>remainingArgs := remainingArgs v @ [x]\<rparr>)"
    using scan_list_plain [of x a "b # rest" v] by simp
  then show ?case by blast
next
  case (3 x y zs)
  show ?case
  proof (cases "x \<in> set wrapper_flags")
    case True
    with "3.prems" have r: "reaches_end zs" by simp
    obtain g where g: "\<And>v. scan_list (x # y # zs @ a # b # rest) v = scan_list (zs @ a # b # rest) (g v)"
      using scan_list_flag [OF True, of y "zs @ a # b # rest"] by blast
    from "3.IH"(1) [OF True r, of "g v"] g show ?thesis by simp
  next
    case False
    with "3.prems" have r: "reaches_end (y # zs)" and nc: "x \<notin> set commands" by simp_all
    have "scan_list ((x # y # zs) @ a # b # rest) v
        = scan_list ((y # zs) @ a # b # rest) (v\<lparr>remainingArgs := remainingArgs v @ [x]\<rparr>)"
      using scan_list_plain [OF False nc, of y "zs @ a # b # rest" v] by simp
    with "3.IH"(2) [OF False r] show ?thesis by simp
  qed
qed

lemma scan_list_trailing:
  "\<not> dangling xs \<Longrightarrow> f \<notin> set commands \<Longrightarrow>
   scan_list (xs @ [f]) v = (scan_list xs v)\<lparr>remainingArgs := remainingArgs (scan_list xs v) @ [f]\<rparr>"
proof (induction xs arbitrary: v rule: dangling.induct)
  case 1
  then show ?case by (simp add: scan_list_single)
next
  case (2 a)
  then have nf: "a \<notin> set wrapper_flags" by simp
  show ?case
  proof (cases "a \<in> set commands")
    case True
    then show ?thesis using scan_list_command [OF nf True] by simp
  next
    case False
    then show ?thesis
      using scan_list_plain [OF nf False, of f "[]" v] "2.prems"(2)
      by (simp add: scan_list_single)
  qed
next
  case (3 a b rest)
  show ?case
  proof (cases "a \<in> set wrapper_flags")
    case True
    with "3.prems" have d: "\<not> dangling rest" by simp
    obtain g where g: "\<And>r v. scan_list (a # b # r) v = scan_list r (g v)"
      using True unfolding flag_cases by (elim disjE) (auto simp: scan_list.simps)
    from "3.IH"(1) [OF True d "3.prems"(2), of "g v"] g show ?thesis by simp
  next
    case False
    show ?thesis
    proof (cases "a \<in> set commands")
      case True
      then show ?thesis using scan_list_command [OF False True] by simp
    next
      case nc: False
      with False "3.prems" have d: "\<not> dangling (b # rest)" by simp
      from "3.IH"(2) [OF False nc d "3.prems"(2), of "v\<lparr>remainingArgs := remainingArgs v @ [a]\<rparr>"]
      show ?thesis
        using scan_list_plain [OF False nc, of b "rest @ [f]" v] scan_list_plain [OF False nc, of b rest v]
        by simp
    qed
  qed
qed

subsection \<open>What \<open>parseArgs\<close> returns\<close>

lemma parseArgs_help:
  "''--help'' \<in> set (argv h) \<or> ''-h'' \<in> set (argv h) \<Longrightarrow> parseArgs h = showHelp"
  by (simp add: parseArgs_def Let_def)

lemma parseArgs_scan:
  "''--help'' \<notin> set (argv h) \<Longrightarrow> ''-h'' \<notin> set (argv h) \<Longrightarrow>
   parseArgs h = (fst (apply_defaults h (scan_list (argv h) (initial_locals h))),
                  Returns (snd (apply_defaults h (scan_list (argv h) (initial_locals h)))))"
  by (simp add: parseArgs_def Let_def scan_scan_list split: prod.splits)

lemma config_of_scan:
  "''--help'' \<notin> set (argv h) \<Longrightarrow> ''-h'' \<notin> set (argv h) \<Longrightarrow>
   config_of h = Some (snd (apply_defaults h (scan_list (argv h) (initial_locals h))))"
  by (simp add: config_of_def parseArgs_scan)

lemma config_of_help:
  "''--help'' \<in> set (argv h) \<or> ''-h'' \<in> set (argv h) \<Longrightarrow> config_of h = None"
  by (simp add: config_of_def parseArgs_help showHelp_def)

subsection \<open>Traces\<close>

lemma spawned_append: "spawned (xs @ ys) = spawned xs @ spawned ys"
  by (induction xs rule: spawned.induct) simp_all

lemma spawned_log [simp]: "spawned (log m c # es) = spawned es"
  by (simp add: log_def)

lemma spawned_banner: "spawned (banner h c stk name) = []"
  by (simp add: banner_def spawned_append)

lemma spawned_defaults: "spawned (fst (apply_defaults h v)) = []"
  by (simp add: apply_defaults_def Let_def)

lemma config_of_no_help:
  "config_of h = Some c \<Longrightarrow> ''--help'' \<notin> set (argv h) \<and> ''-h'' \<notin> set (argv h)"
  using config_of_help [of h] by auto

lemma config_of_parseArgs:
  assumes "config_of h = Some c"
  shows "\<exists>evs. parseArgs h = (evs, Returns c) \<and> spawned evs = []"
proof -
  from assms have nh: "''--help'' \<notin> set (argv h)" "''-h'' \<notin> set (argv h)"
    using config_of_no_help by blast+
  let ?d = "apply_defaults h (scan_list (argv h) (initial_locals h))"
  from assms nh have "snd ?d = c" by (simp add: config_of_scan)
  with parseArgs_scan [OF nh] have "parseArgs h = (fst ?d, Returns c)" by simp
  then show ?thesis using spawned_defaults by blast
qed

subsection \<open>The runs of the script\<close>

lemma script_help:
  "''--help'' \<in> set (argv h) \<or> ''-h'' \<in> set (argv h) \<Longrightarrow>
   script h = \<lparr>trace = [ConsoleLog usage_text], outcome = ProcessExit (Some 0)\<rparr>"
  by (simp add: script_def parseArgs_help showHelp_def)

lemma script_policy_missing:
  assumes "config_of h = Some c" and "\<not> directoryExists h (POLICY_PACK_DIR c)"
  shows "outcome (script h) = ProcessExit (Some 1) \<and> spawned (trace (script h)) = []"
proof -
  from assms(1) obtain evs where p: "parseArgs h = (evs, Returns c)" and s: "spawned evs = []"
    using config_of_parseArgs by blast
  show ?thesis
    using assms(2) s by (simp add: script_def p main_def Let_def spawned_append spawned_banner)
qed

lemma script_project_missing:
  assumes "config_of h = Some c" and "\<not> directoryExists h (PULUMI_PROJECT_DIR c)"
  shows "outcome (script h) = ProcessExit (Some 1) \<and> spawned (trace (script h)) = []"
proof (cases "directoryExists h (POLICY_PACK_DIR c)")
  case False
  with assms(1) show ?thesis by (rule script_policy_missing)
next
  case True
  from assms(1) obtain evs where p: "parseArgs h = (evs, Returns c)" and s: "spawned evs = []"
    using config_of_parseArgs by blast
  show ?thesis
    using assms(2) True s by (simp add: script_def p main_def Let_def spawned_append spawned_banner)
qed

text \<open>The arguments \<open>pulumi\<close> is run with.\<close>

lemma script_spawn_threw:
  assumes "config_of h = Some c"
    and "directoryExists h (POLICY_PACK_DIR c)" and "directoryExists h (PULUMI_PROJECT_DIR c)"
    and "spawn_sync h ''pulumi''
           (initialCommand c # pulumiArgs (env_or_empty h ''PULUMI_STACK'') (initialArgs c) (POLICY_PACK_DIR c))
           (PULUMI_PROJECT_DIR c) = SpawnThrew m"
  shows "\<exists>pre. spawned pre = [] \<and>
     script h = \<lparr>trace = pre @ [SpawnSync ''pulumi''
           (initialCommand c # pulumiArgs (env_or_empty h ''PULUMI_STACK'') (initialArgs c) (POLICY_PACK_DIR c))
           (PULUMI_PROJECT_DIR c), log (''Unhandled error: '' @ m) colors_red],
        outcome = ProcessExit (Some 1)\<rparr>"
proof -
  from assms(1) obtain evs where p: "parseArgs h = (evs, Returns c)" and s: "spawned evs = []"
    using config_of_parseArgs by blast
  let ?stk = "env_or_empty h ''PULUMI_STACK''"
  let ?name = "path_basename h (POLICY_PACK_DIR c)"
  let ?A = "initialCommand c # pulumiArgs ?stk (initialArgs c) (POLICY_PACK_DIR c)"
  let ?pre = "evs @ banner h c ?stk ?name
       @ [StatSync (POLICY_PACK_DIR c), StatSync (PULUMI_PROJECT_DIR c)]
       @ (if stack_added ?stk (initialArgs c)
          then [log (''Adding stack parameter: '' @ ?stk) colors_cyan] else [])
       @ [log (''Running Pulumi '' @ initialCommand c @ '' with policy checks...'') colors_yellow,
          log (''Running command: '' @ ''pulumi'' @ '' '' @ join_space ?A) colors_blue]"
  have "spawned ?pre = []" using s by (simp add: spawned_append spawned_banner)
  moreover have "script h = \<lparr>trace = ?pre @ [SpawnSync ''pulumi'' ?A (PULUMI_PROJECT_DIR c),
        log (''Unhandled error: '' @ m) colors_red], outcome = ProcessExit (Some 1)\<rparr>"
    using assms(2,3,4) by (simp add: script_def p main_def Let_def runCommand_def)
  ultimately show ?thesis by blast
qed


lemma script_spawn_returned:
  assumes "config_of h = Some c"
    and "directoryExists h (POLICY_PACK_DIR c)" and "directoryExists h (PULUMI_PROJECT_DIR c)"
    and "spawn_sync h ''pulumi''
           (initialCommand c # pulumiArgs (env_or_empty h ''PULUMI_STACK'') (initialArgs c) (POLICY_PACK_DIR c))
           (PULUMI_PROJECT_DIR c) = SpawnReturned st"
  shows "\<exists>pre. spawned pre = [] \<and>
     script h = \<lparr>trace = pre @ [SpawnSync ''pulumi''
           (initialCommand c # pulumiArgs (env_or_empty h ''PULUMI_STACK'') (initialArgs c) (POLICY_PACK_DIR c))
           (PULUMI_PROJECT_DIR c),
           if st = Some 0
           then log (check_mark @ '' '' @ initialCommand c
                     @ '' completed successfully with no policy violations'') colors_green
           else log (cross_mark @ '' '' @ initialCommand c
                     @ '' failed or policy violations detected'') colors_red],
        outcome = (if st = Some 0 then Completed else ProcessExit st)\<rparr>"
proof -
  from assms(1) obtain evs where p: "parseArgs h = (evs, Returns c)" and s: "spawned evs = []"
    using config_of_parseArgs by blast
  let ?stk = "env_or_empty h ''PULUMI_STACK''"
  let ?name = "path_basename h (POLICY_PACK_DIR c)"
  let ?A = "initialCommand c # pulumiArgs ?stk (initialArgs c) (POLICY_PACK_DIR c)"
  let ?pre = "evs @ banner h c ?stk ?name
       @ [StatSync (POLICY_PACK_DIR c), StatSync (PULUMI_PROJECT_DIR c)]
       @ (if stack_added ?stk (initialArgs c)
          then [log (''Adding stack parameter: '' @ ?stk) colors_cyan] else [])
       @ [log (''Running Pulumi '' @ initialCommand c @ '' with policy checks...'') colors_yellow,
          log (''Running command: '' @ ''pulumi'' @ '' '' @ join_space ?A) colors_blue]"
  have "spawned ?pre = []" using s by (simp add: spawned_append spawned_banner)
  moreover have "script h = \<lparr>trace = ?pre @ [SpawnSync ''pulumi'' ?A (PULUMI_PROJECT_DIR c),
           if st = Some 0
           then log (check_mark @ '' '' @ initialCommand c
                     @ '' completed successfully with no policy violations'') colors_green
           else log (cross_mark @ '' '' @ initialCommand c
                     @ '' failed or policy violations detected'') colors_red],
        outcome = (if st = Some 0 then Completed else ProcessExit st)\<rparr>"
    using assms(2,3,4) by (simp add: script_def p main_def Let_def runCommand_def)
  ultimately show ?thesis by blast
qed

lemma script_spawned:
  assumes "config_of h = Some c"
    and "directoryExists h (POLICY_PACK_DIR c)" and "directoryExists h (PULUMI_PROJECT_DIR c)"
  shows "spawned (trace (script h)) =
     [(''pulumi'',
       initialCommand c # pulumiArgs (env_or_empty h ''PULUMI_STACK'') (initialArgs c) (POLICY_PACK_DIR c),
       PULUMI_PROJECT_DIR c)]"
proof (cases "spawn_sync h ''pulumi''
           (initialCommand c # pulumiArgs (env_or_empty h ''PULUMI_STACK'') (initialArgs c) (POLICY_PACK_DIR c))
           (PULUMI_PROJECT_DIR c)")
  case (SpawnThrew m)
  from script_spawn_threw [OF assms this] show ?thesis
    by (auto simp: spawned_append)
next
  case (SpawnReturned st)
  from script_spawn_returned [OF assms this] show ?thesis
    by (auto simp: spawned_append)
qed

subsection \<open>Example runs\<close>

lemma example_no_help:
  "''--help'' \<notin> set a \<Longrightarrow> ''-h'' \<notin> set a \<Longrightarrow>
   config_of (example_host a e f r)
     = Some (snd (apply_defaults (example_host a e f r)
                    (scan_list a (initial_locals (example_host a e f r)))))"
  using config_of_scan [of "example_host a e f r"] by (simp add: example_host_def)

lemmas example_eval =
  example_host_def example_fs_def apply_defaults_def initial_locals_def env_or_empty_def
  existsSync_def directoryExists_def resolve_from_def scan_list.simps commands_def Let_def

subsection \<open>Help, missing directories, the child's status, its arguments\<close>

text \<open>
  C8. An \<open>argv\<close> that holds \<open>--help\<close> or \<open>-h\<close>, wherever it stands and whatever the
  other tokens and the environment are: the script prints the usage text and calls
  \<open>process.exit(0)\<close>; it checks no path and starts no child.
\<close>

theorem help_exits_0_without_checks:
  assumes "''--help'' \<in> set (argv h) \<or> ''-h'' \<in> set (argv h)"
  shows "script h = \<lparr>trace = [ConsoleLog usage_text], outcome = ProcessExit (Some 0)\<rparr>
       \<and> exit_status (outcome (script h)) = 0
       \<and> fs_checks (trace (script h)) = []
       \<and> spawned (trace (script h)) = []"
  using script_help [OF assms] by simp

theorem help_exits_0_without_checks_witness:
  "(''--help'' \<in> set (argv (example_host [''up'', ''--yes'', ''-h''] Map.empty Map.empty (SpawnThrew ''ENOENT''))) \<or>
    ''-h'' \<in> set (argv (example_host [''up'', ''--yes'', ''-h''] Map.empty Map.empty (SpawnThrew ''ENOENT''))))
   \<and> script (example_host [''up'', ''--yes'', ''-h''] Map.empty Map.empty (SpawnThrew ''ENOENT''))
       = \<lparr>trace = [ConsoleLog usage_text], outcome = ProcessExit (Some 0)\<rparr>
   \<and> exit_status (outcome (script (example_host [''up'', ''--yes'', ''-h''] Map.empty Map.empty (SpawnThrew ''ENOENT'')))) = 0
   \<and> fs_checks (trace (script (example_host [''up'', ''--yes'', ''-h''] Map.empty Map.empty (SpawnThrew ''ENOENT'')))) = []
   \<and> spawned (trace (script (example_host [''up'', ''--yes'', ''-h''] Map.empty Map.empty (SpawnThrew ''ENOENT'')))) = []"
proof -
  have a: "''--help'' \<in> set (argv (example_host [''up'', ''--yes'', ''-h''] Map.empty Map.empty (SpawnThrew ''ENOENT''))) \<or>
    ''-h'' \<in> set (argv (example_host [''up'', ''--yes'', ''-h''] Map.empty Map.empty (SpawnThrew ''ENOENT'')))"
    by (simp add: example_host_def)
  from help_exits_0_without_checks [OF a] a show ?thesis by blast
qed

text \<open>
  C9. No help flag in \<open>argv\<close>, and the resolved \<open>projectDir\<close> is not a directory: the
  script calls \<open>process.exit(1)\<close> and starts no child.
\<close>

theorem missing_project_dir_exits_1:
  assumes "''--help'' \<notin> set (argv h)" and "''-h'' \<notin> set (argv h)"
    and "config_of h = Some c"
    and "\<not> directoryExists h (PULUMI_PROJECT_DIR c)"
  shows "outcome (script h) = ProcessExit (Some 1)
       \<and> exit_status (outcome (script h)) = 1
       \<and> spawned (trace (script h)) = []"
  using script_project_missing [OF assms(3,4)] by simp

theorem missing_project_dir_exits_1_witness:
  "''--help'' \<notin> set (argv (example_host [''--project-dir'', ''/nowhere'', ''up''] Map.empty example_fs (SpawnReturned (Some 0))))
   \<and> ''-h'' \<notin> set (argv (example_host [''--project-dir'', ''/nowhere'', ''up''] Map.empty example_fs (SpawnReturned (Some 0))))
   \<and> config_of (example_host [''--project-dir'', ''/nowhere'', ''up''] Map.empty example_fs (SpawnReturned (Some 0)))
       = Some \<lparr>POLICY_PACK_DIR = ''/work/pulumiPolicy'', PULUMI_PROJECT_DIR = ''/nowhere'',
               initialCommand = ''up'', initialArgs = []\<rparr>
   \<and> \<not> directoryExists (example_host [''--project-dir'', ''/nowhere'', ''up''] Map.empty example_fs (SpawnReturned (Some 0))) ''/nowhere''
   \<and> outcome (script (example_host [''--project-dir'', ''/nowhere'', ''up''] Map.empty example_fs (SpawnReturned (Some 0))))
       = ProcessExit (Some 1)
   \<and> exit_status (outcome (script (example_host [''--project-dir'', ''/nowhere'', ''up''] Map.empty example_fs (SpawnReturned (Some 0))))) = 1
   \<and> spawned (trace (script (example_host [''--project-dir'', ''/nowhere'', ''up''] Map.empty example_fs (SpawnReturned (Some 0))))) = []"
proof -
  let ?h = "example_host [''--project-dir'', ''/nowhere'', ''up''] Map.empty example_fs (SpawnReturned (Some 0))"
  let ?c = "\<lparr>POLICY_PACK_DIR = ''/work/pulumiPolicy'', PULUMI_PROJECT_DIR = ''/nowhere'',
               initialCommand = ''up'', initialArgs = []\<rparr>"
  have a: "''--help'' \<notin> set (argv ?h)" and b: "''-h'' \<notin> set (argv ?h)"
    by (simp_all add: example_host_def)
  have c: "config_of ?h = Some ?c"
    by (subst example_no_help) (simp_all add: example_eval)
  have d: "\<not> directoryExists ?h (PULUMI_PROJECT_DIR ?c)"
    by (simp add: example_eval)
  from missing_project_dir_exits_1 [OF a b c d] a b c d show ?thesis by simp
qed

text \<open>
  C7. Both directories exist and the child ends with status \<open>N\<close>. For \<open>N = 0\<close> the script
  prints the line of success and runs to its end, so that the process exits with \<open>0\<close>;
  otherwise it prints the line of failure and calls \<open>process.exit(N)\<close>.
\<close>

theorem child_status_is_exit_status:
  assumes "config_of h = Some c"
    and "directoryExists h (POLICY_PACK_DIR c)" and "directoryExists h (PULUMI_PROJECT_DIR c)"
    and "spawn_sync h ''pulumi''
           (initialCommand c # pulumiArgs (env_or_empty h ''PULUMI_STACK'') (initialArgs c) (POLICY_PACK_DIR c))
           (PULUMI_PROJECT_DIR c) = SpawnReturned (Some N)"
  shows "exit_status (outcome (script h)) = N
       \<and> outcome (script h) = (if N = 0 then Completed else ProcessExit (Some N))
       \<and> last (trace (script h)) =
           (if N = 0
            then log (check_mark @ '' '' @ initialCommand c
                      @ '' completed successfully with no policy violations'') colors_green
            else log (cross_mark @ '' '' @ initialCommand c
                      @ '' failed or policy violations detected'') colors_red)"
proof -
  from script_spawn_returned [OF assms] obtain pre where
    "script h = \<lparr>trace = pre @ [SpawnSync ''pulumi''
           (initialCommand c # pulumiArgs (env_or_empty h ''PULUMI_STACK'') (initialArgs c) (POLICY_PACK_DIR c))
           (PULUMI_PROJECT_DIR c),
           if Some N = Some 0
           then log (check_mark @ '' '' @ initialCommand c
                     @ '' completed successfully with no policy violations'') colors_green
           else log (cross_mark @ '' '' @ initialCommand c
                     @ '' failed or policy violations detected'') colors_red],
        outcome = (if Some N = Some 0 then Completed else ProcessExit (Some N))\<rparr>"
    by blast
  then show ?thesis by simp
qed

theorem child_status_is_exit_status_witness:
  "config_of (example_host [''up''] Map.empty example_fs (SpawnReturned (Some 7)))
     = Some \<lparr>POLICY_PACK_DIR = ''/work/pulumiPolicy'', PULUMI_PROJECT_DIR = ''/opt/wrapper/pulumiTemplate'',
             initialCommand = ''up'', initialArgs = []\<rparr>
   \<and> directoryExists (example_host [''up''] Map.empty example_fs (SpawnReturned (Some 7))) ''/work/pulumiPolicy''
   \<and> directoryExists (example_host [''up''] Map.empty example_fs (SpawnReturned (Some 7))) ''/opt/wrapper/pulumiTemplate''
   \<and> spawn_sync (example_host [''up''] Map.empty example_fs (SpawnReturned (Some 7))) ''pulumi''
        [''up'', ''--policy-pack'', ''/work/pulumiPolicy''] ''/opt/wrapper/pulumiTemplate''
       = SpawnReturned (Some 7)
   \<and> exit_status (outcome (script (example_host [''up''] Map.empty example_fs (SpawnReturned (Some 7))))) = 7
   \<and> outcome (script (example_host [''up''] Map.empty example_fs (SpawnReturned (Some 7)))) = ProcessExit (Some 7)
   \<and> last (trace (script (example_host [''up''] Map.empty example_fs (SpawnReturned (Some 7)))))
       = log (cross_mark @ '' up failed or policy violations detected'') colors_red"
proof -
  let ?h = "example_host [''up''] Map.empty example_fs (SpawnReturned (Some 7))"
  let ?c = "\<lparr>POLICY_PACK_DIR = ''/work/pulumiPolicy'', PULUMI_PROJECT_DIR = ''/opt/wrapper/pulumiTemplate'',
             initialCommand = ''up'', initialArgs = []\<rparr>"
  have c: "config_of ?h = Some ?c"
    by (subst example_no_help) (simp_all add: example_eval)
  have d1: "directoryExists ?h (POLICY_PACK_DIR ?c)" and d2: "directoryExists ?h (PULUMI_PROJECT_DIR ?c)"
    by (simp_all add: example_eval)
  have s: "spawn_sync ?h ''pulumi''
           (initialCommand ?c # pulumiArgs (env_or_empty ?h ''PULUMI_STACK'') (initialArgs ?c) (POLICY_PACK_DIR ?c))
           (PULUMI_PROJECT_DIR ?c) = SpawnReturned (Some 7)"
    by (simp add: example_host_def)
  have s': "spawn_sync ?h ''pulumi'' [''up'', ''--policy-pack'', ''/work/pulumiPolicy'']
       ''/opt/wrapper/pulumiTemplate'' = SpawnReturned (Some 7)"
    by (simp add: example_host_def)
  from child_status_is_exit_status [OF c d1 d2 s] c d1 d2 s' show ?thesis by simp
qed

text \<open>
  C6. Both directories exist, so that \<open>pulumi\<close> is run. Its arguments are the command,
  then \<open>--stack <stack>\<close> when the stack (\<open>PULUMI_STACK\<close>) is set and \<open>--stack\<close> is not
  among the passthrough arguments, then the passthrough arguments unchanged, then
  \<open>--policy-pack <policyDir>\<close>.
\<close>

theorem stack_and_policy_pack_arguments:
  assumes "config_of h = Some c"
    and "directoryExists h (POLICY_PACK_DIR c)" and "directoryExists h (PULUMI_PROJECT_DIR c)"
  shows "spawned (trace (script h)) =
     [(''pulumi'',
       initialCommand c #
         (if env_or_empty h ''PULUMI_STACK'' \<noteq> [] \<and> ''--stack'' \<notin> set (initialArgs c)
          then [''--stack'', env_or_empty h ''PULUMI_STACK''] @ initialArgs c
          else initialArgs c)
         @ [''--policy-pack'', POLICY_PACK_DIR c],
       PULUMI_PROJECT_DIR c)]"
  using script_spawned [OF assms] by (simp add: pulumiArgs_def stack_added_def)

theorem stack_and_policy_pack_arguments_witness:
  "config_of (example_host [''up'', ''--diff''] [''PULUMI_STACK'' \<mapsto> ''dev''] example_fs (SpawnReturned (Some 0)))
     = Some \<lparr>POLICY_PACK_DIR = ''/work/pulumiPolicy'', PULUMI_PROJECT_DIR = ''/opt/wrapper/pulumiTemplate'',
             initialCommand = ''up'', initialArgs = [''--diff'']\<rparr>
   \<and> directoryExists (example_host [''up'', ''--diff''] [''PULUMI_STACK'' \<mapsto> ''dev''] example_fs (SpawnReturned (Some 0))) ''/work/pulumiPolicy''
   \<and> directoryExists (example_host [''up'', ''--diff''] [''PULUMI_STACK'' \<mapsto> ''dev''] example_fs (SpawnReturned (Some 0))) ''/opt/wrapper/pulumiTemplate''
   \<and> spawned (trace (script (example_host [''up'', ''--diff''] [''PULUMI_STACK'' \<mapsto> ''dev''] example_fs (SpawnReturned (Some 0)))))
       = [(''pulumi'', [''up'', ''--stack'', ''dev'', ''--diff'', ''--policy-pack'', ''/work/pulumiPolicy''],
           ''/opt/wrapper/pulumiTemplate'')]
   \<and> config_of (example_host [''up'', ''--stack'', ''prod-explicit''] [''PULUMI_STACK'' \<mapsto> ''dev''] example_fs (SpawnReturned (Some 0)))
     = Some \<lparr>POLICY_PACK_DIR = ''/work/pulumiPolicy'', PULUMI_PROJECT_DIR = ''/opt/wrapper/pulumiTemplate'',
             initialCommand = ''up'', initialArgs = [''--stack'', ''prod-explicit'']\<rparr>
   \<and> spawned (trace (script (example_host [''up'', ''--stack'', ''prod-explicit''] [''PULUMI_STACK'' \<mapsto> ''dev''] example_fs (SpawnReturned (Some 0)))))
       = [(''pulumi'', [''up'', ''--stack'', ''prod-explicit'', ''--policy-pack'', ''/work/pulumiPolicy''],
           ''/opt/wrapper/pulumiTemplate'')]"
proof -
  let ?h = "example_host [''up'', ''--diff''] [''PULUMI_STACK'' \<mapsto> ''dev''] example_fs (SpawnReturned (Some 0))"
  let ?c = "\<lparr>POLICY_PACK_DIR = ''/work/pulumiPolicy'', PULUMI_PROJECT_DIR = ''/opt/wrapper/pulumiTemplate'',
             initialCommand = ''up'', initialArgs = [''--diff'']\<rparr>"
  let ?h' = "example_host [''up'', ''--stack'', ''prod-explicit''] [''PULUMI_STACK'' \<mapsto> ''dev''] example_fs (SpawnReturned (Some 0))"
  let ?c' = "\<lparr>POLICY_PACK_DIR = ''/work/pulumiPolicy'', PULUMI_PROJECT_DIR = ''/opt/wrapper/pulumiTemplate'',
             initialCommand = ''up'', initialArgs = [''--stack'', ''prod-explicit'']\<rparr>"
  have c: "config_of ?h = Some ?c"
    by (subst example_no_help) (simp_all add: example_eval)
  have d1: "directoryExists ?h (POLICY_PACK_DIR ?c)" and d2: "directoryExists ?h (PULUMI_PROJECT_DIR ?c)"
    by (simp_all add: example_eval)
  have c': "config_of ?h' = Some ?c'"
    by (subst example_no_help) (simp_all add: example_eval)
  have d1': "directoryExists ?h' (POLICY_PACK_DIR ?c')" and d2': "directoryExists ?h' (PULUMI_PROJECT_DIR ?c')"
    by (simp_all add: example_eval)
  have e: "env_or_empty ?h ''PULUMI_STACK'' = ''dev''" "env_or_empty ?h' ''PULUMI_STACK'' = ''dev''"
    by (simp_all add: example_eval)
  from stack_and_policy_pack_arguments [OF c d1 d2] stack_and_policy_pack_arguments [OF c' d1' d2']
    c d1 d2 c' e
  show ?thesis by simp
qed

subsection \<open>A missing binary, the stack flag, tokens before the command\<close>

text \<open>
  C3. The \<open>pulumi\<close> binary is missing (\<open>up\<close>, both directories present): \<open>spawnSync\<close>
  raises nothing and returns the status \<open>null\<close>. \<open>main\<close> prints the line of failure and
  calls \<open>process.exit(null)\<close>, which ends the process with \<open>0\<close>; the handler of
  \<open>main().catch\<close> never runs, and the last line printed is the line of failure, not an
  \<open>Unhandled error\<close> line.
\<close>

theorem missing_binary_is_not_exit_1:
  "outcome (script (example_host [''up''] Map.empty example_fs (SpawnReturned None))) = ProcessExit None
   \<and> exit_status (outcome (script (example_host [''up''] Map.empty example_fs (SpawnReturned None)))) = 0
   \<and> last (trace (script (example_host [''up''] Map.empty example_fs (SpawnReturned None))))
       = log (cross_mark @ '' up failed or policy violations detected'') colors_red"
proof -
  let ?h = "example_host [''up''] Map.empty example_fs (SpawnReturned None)"
  let ?c = "\<lparr>POLICY_PACK_DIR = ''/work/pulumiPolicy'', PULUMI_PROJECT_DIR = ''/opt/wrapper/pulumiTemplate'',
             initialCommand = ''up'', initialArgs = []\<rparr>"
  have c: "config_of ?h = Some ?c"
    by (subst example_no_help) (simp_all add: example_eval)
  have d1: "directoryExists ?h (POLICY_PACK_DIR ?c)" and d2: "directoryExists ?h (PULUMI_PROJECT_DIR ?c)"
    by (simp_all add: example_eval)
  have s: "spawn_sync ?h ''pulumi''
           (initialCommand ?c # pulumiArgs (env_or_empty ?h ''PULUMI_STACK'') (initialArgs ?c) (POLICY_PACK_DIR ?c))
           (PULUMI_PROJECT_DIR ?c) = SpawnReturned None"
    by (simp add: example_host_def)
  from script_spawn_returned [OF c d1 d2 s] show ?thesis by auto
qed

text \<open>
  C1. \<open>--stack dev up\<close> with \<open>PULUMI_STACK=prod\<close>: \<open>pulumi\<close> is run with \<open>--stack prod\<close>.
  With \<open>PULUMI_STACK\<close> unset it is run with no \<open>--stack\<close> at all. The loop stores the
  value of the flag in its variable \<open>stack\<close>, which \<open>parseArgs\<close> does not return.
\<close>

theorem stack_flag_is_dropped:
  "spawned (trace (script (example_host [''--stack'', ''dev'', ''up''] [''PULUMI_STACK'' \<mapsto> ''prod'']
                             example_fs (SpawnReturned (Some 0)))))
     = [(''pulumi'', [''up'', ''--stack'', ''prod'', ''--policy-pack'', ''/work/pulumiPolicy''],
         ''/opt/wrapper/pulumiTemplate'')]
   \<and> spawned (trace (script (example_host [''--stack'', ''dev'', ''up''] Map.empty
                             example_fs (SpawnReturned (Some 0)))))
     = [(''pulumi'', [''up'', ''--policy-pack'', ''/work/pulumiPolicy''],
         ''/opt/wrapper/pulumiTemplate'')]
   \<and> stack (scan [''--stack'', ''dev'', ''up''] 0
              (initial_locals (example_host [''--stack'', ''dev'', ''up''] [''PULUMI_STACK'' \<mapsto> ''prod'']
                                 example_fs (SpawnReturned (Some 0))))) = ''dev''"
proof -
  let ?h = "example_host [''--stack'', ''dev'', ''up''] [''PULUMI_STACK'' \<mapsto> ''prod''] example_fs (SpawnReturned (Some 0))"
  let ?h' = "example_host [''--stack'', ''dev'', ''up''] Map.empty example_fs (SpawnReturned (Some 0))"
  let ?c = "\<lparr>POLICY_PACK_DIR = ''/work/pulumiPolicy'', PULUMI_PROJECT_DIR = ''/opt/wrapper/pulumiTemplate'',
             initialCommand = ''up'', initialArgs = []\<rparr>"
  have c: "config_of ?h = Some ?c"
    by (subst example_no_help) (simp_all add: example_eval)
  have d1: "directoryExists ?h (POLICY_PACK_DIR ?c)" and d2: "directoryExists ?h (PULUMI_PROJECT_DIR ?c)"
    by (simp_all add: example_eval)
  have c': "config_of ?h' = Some ?c"
    by (subst example_no_help) (simp_all add: example_eval)
  have d1': "directoryExists ?h' (POLICY_PACK_DIR ?c)" and d2': "directoryExists ?h' (PULUMI_PROJECT_DIR ?c)"
    by (simp_all add: example_eval)
  have e: "env_or_empty ?h ''PULUMI_STACK'' = ''prod''" "env_or_empty ?h' ''PULUMI_STACK'' = []"
    by (simp_all add: example_eval)
  have l: "stack (scan [''--stack'', ''dev'', ''up''] 0 (initial_locals ?h)) = ''dev''"
    by (simp add: scan_scan_list example_eval)
  from script_spawned [OF c d1 d2] script_spawned [OF c' d1' d2'] e l
  show ?thesis by (simp add: pulumiArgs_def stack_added_def)
qed

text \<open>
  C2. \<open>--diff up --yes\<close>: the loop pushes \<open>--diff\<close>, then at \<open>up\<close> it assigns
  \<open>args.slice(i + 1)\<close> to \<open>remainingArgs\<close>, and \<open>--diff\<close> is gone: \<open>pulumi\<close> is run with
  \<open>up --yes\<close>. With no command after it, \<open>--diff\<close> is passed on.
\<close>

theorem tokens_before_command_are_lost:
  "config_of (example_host [''--diff'', ''up'', ''--yes''] Map.empty example_fs (SpawnReturned (Some 0)))
     = Some \<lparr>POLICY_PACK_DIR = ''/work/pulumiPolicy'', PULUMI_PROJECT_DIR = ''/opt/wrapper/pulumiTemplate'',
             initialCommand = ''up'', initialArgs = [''--yes'']\<rparr>
   \<and> spawned (trace (script (example_host [''--diff'', ''up'', ''--yes''] Map.empty example_fs (SpawnReturned (Some 0)))))
     = [(''pulumi'', [''up'', ''--yes'', ''--policy-pack'', ''/work/pulumiPolicy''],
         ''/opt/wrapper/pulumiTemplate'')]
   \<and> config_of (example_host [''--diff''] Map.empty example_fs (SpawnReturned (Some 0)))
     = Some \<lparr>POLICY_PACK_DIR = ''/work/pulumiPolicy'', PULUMI_PROJECT_DIR = ''/opt/wrapper/pulumiTemplate'',
             initialCommand = ''preview'', initialArgs = [''--diff'']\<rparr>"
proof -
  let ?h = "example_host [''--diff'', ''up'', ''--yes''] Map.empty example_fs (SpawnReturned (Some 0))"
  let ?c = "\<lparr>POLICY_PACK_DIR = ''/work/pulumiPolicy'', PULUMI_PROJECT_DIR = ''/opt/wrapper/pulumiTemplate'',
             initialCommand = ''up'', initialArgs = [''--yes'']\<rparr>"
  let ?h' = "example_host [''--diff''] Map.empty example_fs (SpawnReturned (Some 0))"
  have c: "config_of ?h = Some ?c"
    by (subst example_no_help) (simp_all add: example_eval)
  have d1: "directoryExists ?h (POLICY_PACK_DIR ?c)" and d2: "directoryExists ?h (PULUMI_PROJECT_DIR ?c)"
    by (simp_all add: example_eval)
  have c': "config_of ?h' = Some \<lparr>POLICY_PACK_DIR = ''/work/pulumiPolicy'',
       PULUMI_PROJECT_DIR = ''/opt/wrapper/pulumiTemplate'', initialCommand = ''preview'', initialArgs = [''--diff'']\<rparr>"
    by (subst example_no_help) (simp_all add: example_eval)
  have e: "env_or_empty ?h ''PULUMI_STACK'' = []"
    by (simp add: example_eval)
  from script_spawned [OF c d1 d2] c c' e
  show ?thesis by (simp add: pulumiArgs_def stack_added_def)
qed

subsection \<open>The policy directory\<close>

lemma policy_of_defaults:
  "POLICY_PACK_DIR (snd (apply_defaults h v)) =
     path_resolve h
       (if policyDir v = [] then
          (if existsSync h ''./pulumiPolicy'' then ''./pulumiPolicy''
           else path_join h (dirname h) ''pulumiPolicy'')
        else policyDir v)"
  by (simp add: apply_defaults_def Let_def)

text \<open>
  C4, as the script has it. No help flag; \<open>--policy-dir D\<close> stands where the loop reads
  a flag (the tokens before it are plain tokens and flags with their values, and none
  of them is read as a command), \<open>D\<close> is not the empty string, and the loop run on the
  tokens after \<open>D\<close> leaves \<open>policyDir\<close> as it finds it (it reads no later \<open>--policy-dir\<close>
  as a flag with a value). Then the resolved \<open>policyDir\<close> is \<open>path.resolve(D)\<close>,
  whatever the environment holds.
\<close>

theorem policy_dir_flag_overrides_env:
  assumes "''--help'' \<notin> set (argv h)" and "''-h'' \<notin> set (argv h)"
    and "argv h = pre @ ''--policy-dir'' # D # post"
    and "reaches_end pre"
    and "D \<noteq> []"
    and "\<forall>v. policyDir (scan post 0 v) = policyDir v"
  shows "map_option POLICY_PACK_DIR (config_of h) = Some (path_resolve h D)"
proof -
  obtain v' where
    "scan_list (pre @ ''--policy-dir'' # D # post) (initial_locals h)
       = scan_list (''--policy-dir'' # D # post) v'"
    using scan_list_prefix [OF assms(4)] by blast
  then have "scan_list (argv h) (initial_locals h) = scan_list post (v'\<lparr>policyDir := D\<rparr>)"
    using assms(3) by (simp add: scan_list_policy_flag)
  moreover have "policyDir (scan_list post (v'\<lparr>policyDir := D\<rparr>)) = policyDir (v'\<lparr>policyDir := D\<rparr>)"
    using assms(6) by (simp add: scan_scan_list)
  ultimately have "policyDir (scan_list (argv h) (initial_locals h)) = D"
    by simp
  then show ?thesis
    using assms(5) by (simp add: config_of_scan [OF assms(1,2)] policy_of_defaults)
qed

theorem policy_dir_flag_overrides_env_witness:
  "''--help'' \<notin> set (argv (example_host
        [''--yes'', ''--stack'', ''dev'', ''--policy-dir'', ''./my-policies'', ''up'', ''--policy-dir'', ''/b'']
        [''POLICY_DIR'' \<mapsto> ''/env/policies''] example_fs (SpawnReturned (Some 0))))
   \<and> ''-h'' \<notin> set (argv (example_host
        [''--yes'', ''--stack'', ''dev'', ''--policy-dir'', ''./my-policies'', ''up'', ''--policy-dir'', ''/b'']
        [''POLICY_DIR'' \<mapsto> ''/env/policies''] example_fs (SpawnReturned (Some 0))))
   \<and> argv (example_host
        [''--yes'', ''--stack'', ''dev'', ''--policy-dir'', ''./my-policies'', ''up'', ''--policy-dir'', ''/b'']
        [''POLICY_DIR'' \<mapsto> ''/env/policies''] example_fs (SpawnReturned (Some 0)))
       = [''--yes'', ''--stack'', ''dev''] @ ''--policy-dir'' # ''./my-policies''
           # [''up'', ''--policy-dir'', ''/b'']
   \<and> reaches_end [''--yes'', ''--stack'', ''dev'']
   \<and> ''./my-policies'' \<noteq> []
   \<and> (\<forall>v. policyDir (scan [''up'', ''--policy-dir'', ''/b''] 0 v) = policyDir v)
   \<and> map_option POLICY_PACK_DIR
        (config_of (example_host
           [''--yes'', ''--stack'', ''dev'', ''--policy-dir'', ''./my-policies'', ''up'', ''--policy-dir'', ''/b'']
           [''POLICY_DIR'' \<mapsto> ''/env/policies''] example_fs (SpawnReturned (Some 0))))
       = Some ''/work/my-policies''"
proof -
  let ?h = "example_host
        [''--yes'', ''--stack'', ''dev'', ''--policy-dir'', ''./my-policies'', ''up'', ''--policy-dir'', ''/b'']
        [''POLICY_DIR'' \<mapsto> ''/env/policies''] example_fs (SpawnReturned (Some 0))"
  have a: "''--help'' \<notin> set (argv ?h)" and b: "''-h'' \<notin> set (argv ?h)"
    by (simp_all add: example_host_def)
  have c: "argv ?h = [''--yes'', ''--stack'', ''dev''] @ ''--policy-dir'' # ''./my-policies''
      # [''up'', ''--policy-dir'', ''/b'']"
    by (simp add: example_host_def)
  have d: "reaches_end [''--yes'', ''--stack'', ''dev'']"
    by (simp add: wrapper_flags_def commands_def)
  have e: "''./my-policies'' \<noteq> []" by simp
  have f: "\<forall>v. policyDir (scan [''up'', ''--policy-dir'', ''/b''] 0 v) = policyDir v"
    by (simp add: scan_scan_list scan_list.simps commands_def)
  have r: "path_resolve ?h ''./my-policies'' = ''/work/my-policies''"
    by (simp add: example_host_def resolve_from_def)
  from policy_dir_flag_overrides_env [OF a b c d e f] a b c d f r show ?thesis by simp
qed

text \<open>
  C4, as the claim has it, fails for the empty string: \<open>--policy-dir '' up\<close> with
  \<open>POLICY_DIR=/env/policies\<close>. The flag overrides the environment, but \<open>!policyDir\<close> then
  holds and the default is taken: the resolved \<open>policyDir\<close> is \<open>/work/pulumiPolicy\<close>,
  not \<open>path.resolve('')\<close>, which is the working directory \<open>/work\<close>.
\<close>

theorem empty_policy_dir_flag_gives_default:
  "argv (example_host [''--policy-dir'', [], ''up''] [''POLICY_DIR'' \<mapsto> ''/env/policies'']
           example_fs (SpawnReturned (Some 0)))
     = [] @ ''--policy-dir'' # [] # [''up'']
   \<and> map_option POLICY_PACK_DIR
        (config_of (example_host [''--policy-dir'', [], ''up''] [''POLICY_DIR'' \<mapsto> ''/env/policies'']
           example_fs (SpawnReturned (Some 0))))
       = Some ''/work/pulumiPolicy''
   \<and> path_resolve (example_host [''--policy-dir'', [], ''up''] [''POLICY_DIR'' \<mapsto> ''/env/policies'']
           example_fs (SpawnReturned (Some 0))) [] = ''/work''
   \<and> map_option POLICY_PACK_DIR
        (config_of (example_host [''--policy-dir'', [], ''up''] [''POLICY_DIR'' \<mapsto> ''/env/policies'']
           example_fs (SpawnReturned (Some 0))))
       \<noteq> Some (path_resolve (example_host [''--policy-dir'', [], ''up''] [''POLICY_DIR'' \<mapsto> ''/env/policies'']
           example_fs (SpawnReturned (Some 0))) [])"
proof -
  let ?h = "example_host [''--policy-dir'', [], ''up''] [''POLICY_DIR'' \<mapsto> ''/env/policies'']
           example_fs (SpawnReturned (Some 0))"
  have a: "argv ?h = [] @ ''--policy-dir'' # [] # [''up'']" by (simp add: example_host_def)
  have c: "map_option POLICY_PACK_DIR (config_of ?h) = Some ''/work/pulumiPolicy''"
    by (subst example_no_help) (simp_all add: example_eval)
  have r: "path_resolve ?h [] = ''/work''" by (simp add: example_host_def resolve_from_def)
  show ?thesis unfolding c r using a by simp
qed

text \<open>
  C5, as the script has it. No help flag, no \<open>--policy-dir\<close> token and \<open>POLICY_DIR\<close>
  unset or empty: the resolved \<open>policyDir\<close> is \<open>path.resolve('./pulumiPolicy')\<close> when
  \<open>fs.existsSync('./pulumiPolicy')\<close> holds, whatever kind of entry it is, and
  \<open>path.resolve(path.join(__dirname, 'pulumiPolicy'))\<close> otherwise.
\<close>

theorem policy_dir_default:
  assumes "''--help'' \<notin> set (argv h)" and "''-h'' \<notin> set (argv h)"
    and "''--policy-dir'' \<notin> set (argv h)"
    and "env_or_empty h ''POLICY_DIR'' = []"
  shows "map_option POLICY_PACK_DIR (config_of h) =
     Some (path_resolve h
             (if existsSync h ''./pulumiPolicy'' then ''./pulumiPolicy''
              else path_join h (dirname h) ''pulumiPolicy''))"
proof -
  have "policyDir (scan_list (argv h) (initial_locals h)) = policyDir (initial_locals h)"
    using assms(3) by (rule scan_list_policyDir)
  also have "\<dots> = []" using assms(4) by (simp add: initial_locals_def)
  finally show ?thesis
    by (simp add: config_of_scan [OF assms(1,2)] policy_of_defaults)
qed

theorem policy_dir_default_witness:
  "''--help'' \<notin> set (argv (example_host [''up'', ''--diff''] Map.empty example_fs (SpawnReturned (Some 0))))
   \<and> ''-h'' \<notin> set (argv (example_host [''up'', ''--diff''] Map.empty example_fs (SpawnReturned (Some 0))))
   \<and> ''--policy-dir'' \<notin> set (argv (example_host [''up'', ''--diff''] Map.empty example_fs (SpawnReturned (Some 0))))
   \<and> env_or_empty (example_host [''up'', ''--diff''] Map.empty example_fs (SpawnReturned (Some 0))) ''POLICY_DIR'' = []
   \<and> existsSync (example_host [''up'', ''--diff''] Map.empty example_fs (SpawnReturned (Some 0))) ''./pulumiPolicy''
   \<and> map_option POLICY_PACK_DIR
        (config_of (example_host [''up'', ''--diff''] Map.empty example_fs (SpawnReturned (Some 0))))
       = Some ''/work/pulumiPolicy''
   \<and> ''--help'' \<notin> set (argv (example_host [''up'', ''--diff''] [''POLICY_DIR'' \<mapsto> []] Map.empty (SpawnReturned (Some 0))))
   \<and> ''-h'' \<notin> set (argv (example_host [''up'', ''--diff''] [''POLICY_DIR'' \<mapsto> []] Map.empty (SpawnReturned (Some 0))))
   \<and> ''--policy-dir'' \<notin> set (argv (example_host [''up'', ''--diff''] [''POLICY_DIR'' \<mapsto> []] Map.empty (SpawnReturned (Some 0))))
   \<and> env_or_empty (example_host [''up'', ''--diff''] [''POLICY_DIR'' \<mapsto> []] Map.empty (SpawnReturned (Some 0))) ''POLICY_DIR'' = []
   \<and> \<not> existsSync (example_host [''up'', ''--diff''] [''POLICY_DIR'' \<mapsto> []] Map.empty (SpawnReturned (Some 0))) ''./pulumiPolicy''
   \<and> map_option POLICY_PACK_DIR
        (config_of (example_host [''up'', ''--diff''] [''POLICY_DIR'' \<mapsto> []] Map.empty (SpawnReturned (Some 0))))
       = Some ''/opt/wrapper/pulumiPolicy''"
proof -
  let ?h = "example_host [''up'', ''--diff''] Map.empty example_fs (SpawnReturned (Some 0))"
  let ?h' = "example_host [''up'', ''--diff''] [''POLICY_DIR'' \<mapsto> []] Map.empty (SpawnReturned (Some 0))"
  have a: "''--help'' \<notin> set (argv ?h)" and b: "''-h'' \<notin> set (argv ?h)"
    and c: "''--policy-dir'' \<notin> set (argv ?h)"
    by (simp_all add: example_host_def)
  have d: "env_or_empty ?h ''POLICY_DIR'' = []" by (simp add: example_eval)
  have e: "existsSync ?h ''./pulumiPolicy''" by (simp add: example_eval)
  have r: "path_resolve ?h ''./pulumiPolicy'' = ''/work/pulumiPolicy''"
    by (simp add: example_host_def resolve_from_def)
  have a': "''--help'' \<notin> set (argv ?h')" and b': "''-h'' \<notin> set (argv ?h')"
    and c': "''--policy-dir'' \<notin> set (argv ?h')"
    by (simp_all add: example_host_def)
  have d': "env_or_empty ?h' ''POLICY_DIR'' = []" by (simp add: example_eval)
  have e': "\<not> existsSync ?h' ''./pulumiPolicy''" by (simp add: example_eval)
  have r': "path_resolve ?h' (path_join ?h' (dirname ?h') ''pulumiPolicy'') = ''/opt/wrapper/pulumiPolicy''"
    by (simp add: example_host_def resolve_from_def)
  from policy_dir_default [OF a b c d] policy_dir_default [OF a' b' c' d']
    a b c d e r a' b' c' d' e' r'
  show ?thesis by simp
qed

text \<open>
  C5, as the claim has it, fails where \<open>./pulumiPolicy\<close> exists and is not a
  directory: the claim then gives the directory beside the script,
  \<open>/opt/wrapper/pulumiPolicy\<close>, and the script gives \<open>/work/pulumiPolicy\<close>.
\<close>

theorem local_policy_file_is_taken:
  "''--policy-dir'' \<notin> set (argv (example_host [''up''] Map.empty (example_fs(''./pulumiPolicy'' \<mapsto> OtherEntry))
        (SpawnReturned (Some 0))))
   \<and> env (example_host [''up''] Map.empty (example_fs(''./pulumiPolicy'' \<mapsto> OtherEntry))
        (SpawnReturned (Some 0))) ''POLICY_DIR'' = None
   \<and> \<not> directoryExists (example_host [''up''] Map.empty (example_fs(''./pulumiPolicy'' \<mapsto> OtherEntry))
        (SpawnReturned (Some 0))) ''./pulumiPolicy''
   \<and> map_option POLICY_PACK_DIR
        (config_of (example_host [''up''] Map.empty (example_fs(''./pulumiPolicy'' \<mapsto> OtherEntry))
           (SpawnReturned (Some 0))))
       = Some ''/work/pulumiPolicy''
   \<and> path_resolve (example_host [''up''] Map.empty (example_fs(''./pulumiPolicy'' \<mapsto> OtherEntry))
        (SpawnReturned (Some 0)))
       (path_join (example_host [''up''] Map.empty (example_fs(''./pulumiPolicy'' \<mapsto> OtherEntry))
          (SpawnReturned (Some 0)))
          (dirname (example_host [''up''] Map.empty (example_fs(''./pulumiPolicy'' \<mapsto> OtherEntry))
             (SpawnReturned (Some 0)))) ''pulumiPolicy'')
       = ''/opt/wrapper/pulumiPolicy''"
proof -
  let ?h = "example_host [''up''] Map.empty (example_fs(''./pulumiPolicy'' \<mapsto> OtherEntry))
        (SpawnReturned (Some 0))"
  have a: "''--policy-dir'' \<notin> set (argv ?h)" and b: "env ?h ''POLICY_DIR'' = None"
    by (simp_all add: example_host_def)
  have c: "\<not> directoryExists ?h ''./pulumiPolicy''" by (simp add: example_eval)
  have d: "map_option POLICY_PACK_DIR (config_of ?h) = Some ''/work/pulumiPolicy''"
    by (subst example_no_help) (simp_all add: example_eval)
  have r: "path_resolve ?h (path_join ?h (dirname ?h) ''pulumiPolicy'') = ''/opt/wrapper/pulumiPolicy''"
    by (simp add: example_host_def resolve_from_def)
  from a b c d r show ?thesis by simp
qed

subsection \<open>A flag at the end of \<open>argv\<close>\<close>

lemma defaults_argv: "apply_defaults (h\<lparr>argv := xs\<rparr>) v = apply_defaults h v"
  by (simp add: apply_defaults_def existsSync_def Let_def)

lemma initial_locals_argv: "initial_locals (h\<lparr>argv := xs\<rparr>) = initial_locals h"
  by (simp add: initial_locals_def env_or_empty_def)

lemma defaults_trailing:
  "snd (apply_defaults h (v\<lparr>remainingArgs := remainingArgs v @ [f]\<rparr>))
     = (snd (apply_defaults h v))\<lparr>initialArgs := initialArgs (snd (apply_defaults h v)) @ [f]\<rparr>"
  by (simp add: apply_defaults_def Let_def)

lemma flag_not_command: "f \<in> set wrapper_flags \<Longrightarrow> f \<notin> set commands"
  by (auto simp: wrapper_flags_def commands_def)

text \<open>
  C10, as the script has it. No help flag, the last token \<open>f\<close> of \<open>argv\<close> is one of the
  three flags, and the tokens \<open>xs\<close> before it do not end in a flag that waits for its
  value. Every index the loop reads is inside \<open>argv\<close> (it reads \<open>args[i + 1]\<close> under
  \<open>i + 1 < args.length\<close> only), so \<open>f\<close> is not taken as a flag: it is the last of the
  passthrough arguments, and every variable of the loop and every field of the
  configuration is what \<open>xs\<close> alone gives, with \<open>f\<close> added at the end of the passthrough
  arguments.
\<close>

theorem trailing_flag_is_passed_through:
  assumes "''--help'' \<notin> set (argv h)" and "''-h'' \<notin> set (argv h)"
    and "argv h = xs @ [f]"
    and "f \<in> set wrapper_flags"
    and "\<not> dangling xs"
  shows "(\<forall>k \<in> set (scan_reads (argv h) 0). k < length (argv h))
     \<and> scan (argv h) 0 (initial_locals h)
       = (scan xs 0 (initial_locals h))
           \<lparr>remainingArgs := remainingArgs (scan xs 0 (initial_locals h)) @ [f]\<rparr>
     \<and> config_of h
       = map_option (\<lambda>c. c\<lparr>initialArgs := initialArgs c @ [f]\<rparr>) (config_of (h\<lparr>argv := xs\<rparr>))"
proof -
  let ?v = "scan_list xs (initial_locals h)"
  have nc: "f \<notin> set commands" using assms(4) by (rule flag_not_command)
  have s: "scan_list (argv h) (initial_locals h) = ?v\<lparr>remainingArgs := remainingArgs ?v @ [f]\<rparr>"
    unfolding assms(3) using assms(5) nc by (rule scan_list_trailing)
  have nh: "''--help'' \<notin> set (argv (h\<lparr>argv := xs\<rparr>))" "''-h'' \<notin> set (argv (h\<lparr>argv := xs\<rparr>))"
    using assms(1,2,3) by simp_all
  have c: "config_of (h\<lparr>argv := xs\<rparr>) = Some (snd (apply_defaults h ?v))"
    using config_of_scan [OF nh] by (simp add: defaults_argv initial_locals_argv)
  have "config_of h = Some (snd (apply_defaults h (?v\<lparr>remainingArgs := remainingArgs ?v @ [f]\<rparr>)))"
    using config_of_scan [OF assms(1,2)] s by simp
  then have "config_of h
       = map_option (\<lambda>c. c\<lparr>initialArgs := initialArgs c @ [f]\<rparr>) (config_of (h\<lparr>argv := xs\<rparr>))"
    by (simp add: c defaults_trailing)
  moreover have "scan (argv h) 0 (initial_locals h)
       = (scan xs 0 (initial_locals h))
           \<lparr>remainingArgs := remainingArgs (scan xs 0 (initial_locals h)) @ [f]\<rparr>"
    using s by (simp add: scan_scan_list)
  moreover have "\<forall>k \<in> set (scan_reads (argv h) 0). k < length (argv h)"
    using scan_reads_in_range by blast
  ultimately show ?thesis by blast
qed

theorem trailing_flag_is_passed_through_witness:
  "''--help'' \<notin> set (argv (example_host [''--diff'', ''--policy-dir''] [''POLICY_DIR'' \<mapsto> ''/env/policies'']
        example_fs (SpawnReturned (Some 0))))
   \<and> ''-h'' \<notin> set (argv (example_host [''--diff'', ''--policy-dir''] [''POLICY_DIR'' \<mapsto> ''/env/policies'']
        example_fs (SpawnReturned (Some 0))))
   \<and> argv (example_host [''--diff'', ''--policy-dir''] [''POLICY_DIR'' \<mapsto> ''/env/policies'']
        example_fs (SpawnReturned (Some 0))) = [''--diff''] @ [''--policy-dir'']
   \<and> ''--policy-dir'' \<in> set wrapper_flags
   \<and> \<not> dangling [''--diff'']
   \<and> scan_reads (argv (example_host [''--diff'', ''--policy-dir''] [''POLICY_DIR'' \<mapsto> ''/env/policies'']
        example_fs (SpawnReturned (Some 0)))) 0 = [0, 1]
   \<and> config_of (example_host [''--diff'', ''--policy-dir''] [''POLICY_DIR'' \<mapsto> ''/env/policies'']
        example_fs (SpawnReturned (Some 0)))
       = Some \<lparr>POLICY_PACK_DIR = ''/env/policies'', PULUMI_PROJECT_DIR = ''/opt/wrapper/pulumiTemplate'',
               initialCommand = ''preview'', initialArgs = [''--diff'', ''--policy-dir'']\<rparr>"
proof -
  let ?h = "example_host [''--diff'', ''--policy-dir''] [''POLICY_DIR'' \<mapsto> ''/env/policies'']
        example_fs (SpawnReturned (Some 0))"
  have a: "''--help'' \<notin> set (argv ?h)" and b: "''-h'' \<notin> set (argv ?h)"
    and c: "argv ?h = [''--diff''] @ [''--policy-dir'']"
    by (simp_all add: example_host_def)
  have d: "''--policy-dir'' \<in> set wrapper_flags" by (simp add: wrapper_flags_def)
  have e: "\<not> dangling [''--diff'']" by (simp add: wrapper_flags_def)
  have x: "?h\<lparr>argv := [''--diff'']\<rparr>
      = example_host [''--diff''] [''POLICY_DIR'' \<mapsto> ''/env/policies''] example_fs (SpawnReturned (Some 0))"
    by (simp add: example_host_def)
  have g: "config_of (?h\<lparr>argv := [''--diff'']\<rparr>)
      = Some \<lparr>POLICY_PACK_DIR = ''/env/policies'', PULUMI_PROJECT_DIR = ''/opt/wrapper/pulumiTemplate'',
               initialCommand = ''preview'', initialArgs = [''--diff'']\<rparr>"
    unfolding x by (subst example_no_help) (simp_all add: example_eval)
  have r: "scan_reads (argv ?h) 0 = [0, 1]"
    by (simp add: example_host_def scan_reads.simps)
  from trailing_flag_is_passed_through [OF a b c d e] a b c d e r
  show ?thesis unfolding g by simp
qed

text \<open>
  C10, as the claim has it, fails where the flag before the last token takes it as its
  value: in \<open>--project-dir --stack\<close> the last token is the flag \<open>--stack\<close>, it is not
  among the passthrough arguments, and \<open>projectDir\<close> is \<open>path.resolve('--stack')\<close>.
\<close>

theorem trailing_flag_taken_as_value:
  "last (argv (example_host [''--project-dir'', ''--stack''] Map.empty example_fs (SpawnReturned (Some 0))))
     = ''--stack''
   \<and> map_option initialArgs
        (config_of (example_host [''--project-dir'', ''--stack''] Map.empty example_fs (SpawnReturned (Some 0))))
     = Some []
   \<and> map_option PULUMI_PROJECT_DIR
        (config_of (example_host [''--project-dir'', ''--stack''] Map.empty example_fs (SpawnReturned (Some 0))))
     = Some ''/work/--stack''"
proof -
  let ?h = "example_host [''--project-dir'', ''--stack''] Map.empty example_fs (SpawnReturned (Some 0))"
  have a: "last (argv ?h) = ''--stack''" by (simp add: example_host_def)
  have c: "config_of ?h = Some \<lparr>POLICY_PACK_DIR = ''/work/pulumiPolicy'',
      PULUMI_PROJECT_DIR = ''/work/--stack'', initialCommand = ''preview'', initialArgs = []\<rparr>"
    by (subst example_no_help) (simp_all add: example_eval)
  show ?thesis unfolding c using a by simp
qed

end
